theory Spec2Isabelle
  imports Complex_Main "HOL-Library.Word" "HOL-Library.Log_Nat"
begin

section \<open>Go values used by package leapmotion\<close>

subsection \<open>Slices\<close>

text \<open>
  A Go slice is either \<^verbatim>\<open>nil\<close> or a sequence of elements. \<^verbatim>\<open>len\<close> of the nil slice
  is 0. Indexing is only ever used below after the length has been checked.
\<close>

datatype 'a slice = nil | Slice "'a list"

fun len :: "'a slice \<Rightarrow> nat" where
  "len nil = 0"
| "len (Slice xs) = length xs"

fun elems :: "'a slice \<Rightarrow> 'a list" where
  "elems nil = []"
| "elems (Slice xs) = xs"

definition idx :: "'a slice \<Rightarrow> nat \<Rightarrow> 'a" where
  "idx s k = elems s ! k"

subsection \<open>float64\<close>

text \<open>
  The values of an IEEE 754 binary64: the finite numbers (a rational, \<open>Finite 0\<close> being
  +0), the negative zero, the two infinities and NaN. Arithmetic computes the exact
  rational result and rounds it to the nearest binary64, ties to even, as Go does.
\<close>

datatype float64 = Finite rat | NegZero | PosInf | NegInf | NaN

text \<open>\<open>ilog2 q\<close> is the integer \<open>e\<close> with \<open>2^e \<le> |q| < 2^(e+1)\<close>, for \<open>q \<noteq> 0\<close>.\<close>

definition ilog2 :: "rat \<Rightarrow> int" where
  "ilog2 q = (if 1 \<le> \<bar>q\<bar> then bitlen \<lfloor>\<bar>q\<bar>\<rfloor> - 1 else - bitlen (\<lceil>1 / \<bar>q\<bar>\<rceil> - 1))"

definition pow2 :: "int \<Rightarrow> rat" where
  "pow2 e = (if 0 \<le> e then 2 ^ nat e else 1 / 2 ^ nat (- e))"

definition round_half_even :: "rat \<Rightarrow> int" where
  "round_half_even x =
     (let f = \<lfloor>x\<rfloor>; r = x - of_int f
      in if r < 1 / 2 then f else if 1 / 2 < r then f + 1 else if even f then f else f + 1)"

text \<open>
  Rounding to binary64: 53 significant bits, the least exponent of a unit in the last
  place is -1074 (subnormals), a rounded magnitude of \<open>2^1024\<close> or more overflows to an
  infinity, and a result that rounds to zero keeps the sign of the exact value.
\<close>

definition round64 :: "rat \<Rightarrow> float64" where
  "round64 q =
     (if q = 0 then Finite 0
      else let u = max (ilog2 q - 52) (- 1074);
               m = round_half_even (q / pow2 u);
               r = of_int m * pow2 u
           in if 2 ^ 1024 \<le> \<bar>r\<bar> then (if 0 < q then PosInf else NegInf)
              else if m = 0 then (if 0 < q then Finite 0 else NegZero)
              else Finite r)"

fun is_zero :: "float64 \<Rightarrow> bool" where
  "is_zero (Finite q) = (q = 0)"
| "is_zero NegZero = True"
| "is_zero _ = False"

fun is_finite :: "float64 \<Rightarrow> bool" where
  "is_finite (Finite q) = True"
| "is_finite NegZero = True"
| "is_finite _ = False"

text \<open>The rational value of a finite float64 (both zeros have value 0).\<close>

fun val :: "float64 \<Rightarrow> rat" where
  "val (Finite q) = q"
| "val _ = 0"

text \<open>\<^verbatim>\<open>math.Signbit\<close>: is the sign bit set. NaN is given no sign here.\<close>

fun Signbit :: "float64 \<Rightarrow> bool" where
  "Signbit (Finite q) = (q < 0)"
| "Signbit NegZero = True"
| "Signbit NegInf = True"
| "Signbit _ = False"

fun fneg :: "float64 \<Rightarrow> float64" where
  "fneg (Finite q) = (if q = 0 then NegZero else Finite (- q))"
| "fneg NegZero = Finite 0"
| "fneg PosInf = NegInf"
| "fneg NegInf = PosInf"
| "fneg NaN = NaN"

text \<open>Go's \<^verbatim>\<open>x + y\<close> on float64.\<close>

fun fadd :: "float64 \<Rightarrow> float64 \<Rightarrow> float64" where
  "fadd NaN y = NaN"
| "fadd x NaN = NaN"
| "fadd PosInf NegInf = NaN"
| "fadd NegInf PosInf = NaN"
| "fadd PosInf y = PosInf"
| "fadd NegInf y = NegInf"
| "fadd x PosInf = PosInf"
| "fadd x NegInf = NegInf"
| "fadd NegZero NegZero = NegZero"
| "fadd x y = (if val x + val y = 0 then Finite 0 else round64 (val x + val y))"

text \<open>Go's \<^verbatim>\<open>x - y\<close> on float64.\<close>

definition fsub :: "float64 \<Rightarrow> float64 \<Rightarrow> float64" where
  "fsub x y = fadd x (fneg y)"

definition signed_zero :: "bool \<Rightarrow> float64" where
  "signed_zero neg = (if neg then NegZero else Finite 0)"

definition signed_inf :: "bool \<Rightarrow> float64" where
  "signed_inf neg = (if neg then NegInf else PosInf)"

text \<open>
  Go's \<^verbatim>\<open>x / y\<close> on float64. A zero divisor does not panic: it gives an infinity,
  or NaN for 0/0.
\<close>

definition fdiv :: "float64 \<Rightarrow> float64 \<Rightarrow> float64" where
  "fdiv x y =
     (if x = NaN \<or> y = NaN then NaN
      else if \<not> is_finite x then
        (if \<not> is_finite y then NaN else signed_inf (Signbit x \<noteq> Signbit y))
      else if \<not> is_finite y then signed_zero (Signbit x \<noteq> Signbit y)
      else if is_zero y then
        (if is_zero x then NaN else signed_inf (Signbit x \<noteq> Signbit y))
      else if is_zero x then signed_zero (Signbit x \<noteq> Signbit y)
      else round64 (val x / val y))"

text \<open>Go's comparisons \<^verbatim>\<open>x < y\<close> and \<^verbatim>\<open>x == y\<close>: false on NaN, and -0 == +0.\<close>

fun flt :: "float64 \<Rightarrow> float64 \<Rightarrow> bool" where
  "flt NaN y = False"
| "flt x NaN = False"
| "flt PosInf y = False"
| "flt x NegInf = False"
| "flt NegInf y = True"
| "flt x PosInf = True"
| "flt x y = (val x < val y)"

fun feq :: "float64 \<Rightarrow> float64 \<Rightarrow> bool" where
  "feq NaN y = False"
| "feq x NaN = False"
| "feq PosInf y = (y = PosInf)"
| "feq NegInf y = (y = NegInf)"
| "feq x PosInf = False"
| "feq x NegInf = False"
| "feq x y = (val x = val y)"

definition fle :: "float64 \<Rightarrow> float64 \<Rightarrow> bool" where
  "fle x y = (flt x y \<or> feq x y)"

text \<open>
  \<^verbatim>\<open>math.Max\<close> and \<^verbatim>\<open>math.Min\<close> of the Go standard library, case by case in the
  order of its implementation: an infinity wins over NaN, NaN over numbers, and of two
  zeros Max prefers +0 and Min prefers -0.
\<close>

definition Max_f :: "float64 \<Rightarrow> float64 \<Rightarrow> float64" where
  "Max_f x y =
     (if x = PosInf \<or> y = PosInf then PosInf
      else if x = NaN \<or> y = NaN then NaN
      else if is_zero x \<and> feq x y then (if Signbit x then y else x)
      else if flt y x then x else y)"

definition Min_f :: "float64 \<Rightarrow> float64 \<Rightarrow> float64" where
  "Min_f x y =
     (if x = NegInf \<or> y = NegInf then NegInf
      else if x = NaN \<or> y = NaN then NaN
      else if is_zero x \<and> feq x y then (if Signbit x then x else y)
      else if flt x y then x else y)"

text \<open>The conversion \<^verbatim>\<open>float64(n)\<close> of a 64-bit \<^verbatim>\<open>int\<close>.\<close>

definition float64_of_int :: "64 word \<Rightarrow> float64" where
  "float64_of_int n = round64 (of_int (sint n))"

text \<open>The constant \<^verbatim>\<open>0.5\<close>, and decimal constants in general.\<close>

definition half :: float64 where
  "half = Finite (1 / 2)"

definition lit :: "rat \<Rightarrow> float64" where
  "lit q = round64 q"

section \<open>InteractionBox.NormalizePoint\<close>

record InteractionBox =
  Center :: "64 word slice"
  Size :: "float64 slice"

text \<open>One axis of the affine transform, lines 105 to 111 of leapmotion.go.\<close>

definition axis :: "InteractionBox \<Rightarrow> float64 slice \<Rightarrow> nat \<Rightarrow> float64" where
  "axis i position k =
     fadd (fdiv (fsub (idx position k) (float64_of_int (idx (Center i) k))) (idx (Size i) k)) half"

text \<open>The clamp of one component: \<^verbatim>\<open>math.Min(math.Max(v, 0), 1)\<close>.\<close>

definition clamp01 :: "float64 \<Rightarrow> float64" where
  "clamp01 v = Min_f (Max_f v (Finite 0)) (Finite 1)"

text \<open>
  The function returns \<^verbatim>\<open>(nil, err)\<close> or \<^verbatim>\<open>(vec, nil)\<close>: \<open>Inl\<close> carries the
  message of the error, \<open>Inr\<close> the three components of \<^verbatim>\<open>vec\<close>. The components are
  assigned twice in the source, with the same right-hand sides.
\<close>

definition NormalizePoint :: "InteractionBox \<Rightarrow> float64 slice \<Rightarrow> bool \<Rightarrow> string + float64 list" where
  "NormalizePoint i position clamp =
     (if Center i = nil \<or> len (Center i) < 3 then
        Inl ''Center isn't set or doesn't have enough values''
      else if Size i = nil \<or> len (Size i) < 3 then
        Inl ''Size isn't set or doesn't have enough values''
      else if position = nil \<or> len position < 3 then
        Inl ''postion isn't set or doesn't have enough values''
      else
        let vec = [Finite 0, Finite 0, Finite 0];
            vec = vec[0 := axis i position 0];
            vec = vec[1 := axis i position 1];
            vec = vec[2 := axis i position 2];
            vec = vec[0 := axis i position 0];
            vec = vec[1 := axis i position 1];
            vec = vec[2 := axis i position 2];
            vec = (if clamp
                   then let vec = vec[0 := clamp01 (vec ! 0)];
                            vec = vec[1 := clamp01 (vec ! 1)];
                            vec = vec[2 := clamp01 (vec ! 2)]
                        in vec
                   else vec)
        in Inr vec)"

text \<open>The calibration volume of the repository's test: center (1,1,1), size (1,1,1).\<close>

definition box1 :: InteractionBox where
  "box1 = \<lparr>Center = Slice [1, 1, 1], Size = Slice [Finite 1, Finite 1, Finite 1]\<rparr>"

section \<open>The data of a frame\<close>

text \<open>
  The structs of leapmotion.go. A field is prefixed with the name of its struct where
  two structs share the name of a field. Go's \<^verbatim>\<open>int\<close> is a 64-bit word.
\<close>

record Gesture =
  Gesture_Center :: "float64 slice"
  Gesture_Direction :: "float64 slice"
  Gesture_Duration :: "64 word"
  Gesture_HandsIDs :: "64 word slice"
  Gesture_ID :: "64 word"
  Gesture_Normal :: "float64 slice"
  Gesture_PointableIDs :: "64 word slice"
  Gesture_Position :: "float64 slice"
  Gesture_Progress :: float64
  Gesture_Radius :: float64
  Gesture_Speed :: float64
  Gesture_StartPosition :: "float64 slice"
  Gesture_State :: string
  Gesture_Type :: string

record Hand =
  Hand_ArmBasis :: "float64 slice"
  Hand_ArmWidth :: float64
  Hand_Confidence :: float64
  Hand_Direction :: "float64 slice"
  Hand_Elbow :: "float64 slice"
  Hand_GrabStrength :: float64
  Hand_ID :: "64 word"
  Hand_PalmNormal :: "float64 slice"
  Hand_PalmPosition :: "float64 slice"
  Hand_PalmVelocity :: "float64 slice"
  Hand_PinchStrength :: float64
  Hand_R :: "float64 slice slice"
  Hand_S :: float64
  Hand_SphereCenter :: "float64 slice"
  Hand_SphereRadius :: float64
  Hand_StabilizedPalmPosition :: "float64 slice"
  Hand_T :: "float64 slice"
  Hand_TimeVisible :: float64
  Hand_Type :: string
  Hand_Wrist :: "float64 slice"

record Pointable =
  Pointable_Bases :: "float64 slice"
  Pointable_BtipPosition :: "float64 slice"
  Pointable_CarpPosition :: "float64 slice"
  Pointable_DipPosition :: "float64 slice"
  Pointable_Direction :: "float64 slice"
  Pointable_Extended :: bool
  Pointable_HandID :: "64 word"
  Pointable_ID :: "64 word"
  Pointable_Length :: float64
  Pointable_McpPosition :: "float64 slice"
  Pointable_PipPosition :: "float64 slice"
  Pointable_StabilizedTipPosition :: "float64 slice"
  Pointable_TimeVisible :: float64
  Pointable_TipPosition :: "float64 slice"
  Pointable_TipVelocity :: "float64 slice"
  Pointable_Tool :: bool
  Pointable_TouchDistance :: float64
  Pointable_TouchZone :: string
  Pointable_Type :: "64 word"
  Pointable_Width :: float64

record Frame =
  CurrentFrameRate :: float64
  ID :: float64
  R :: "float64 slice slice"
  S :: float64
  T :: "float64 slice"
  Timestamp :: "64 word"
  Gestures :: "Gesture slice"
  Hands :: "Hand slice"
  InteractionBox :: InteractionBox
  Pointables :: "Pointable slice"

text \<open>The zero value \<^verbatim>\<open>Frame{}\<close>.\<close>

definition zero_Frame :: Frame where
  "zero_Frame = \<lparr>CurrentFrameRate = Finite 0, ID = Finite 0, R = nil, S = Finite 0, T = nil,
     Timestamp = 0, Gestures = nil, Hands = nil,
     InteractionBox = \<lparr>Center = nil, Size = nil\<rparr>, Pointables = nil\<rparr>"

section \<open>The client\<close>

subsection \<open>The websocket library, as the client uses it\<close>

text \<open>
  Package golang.org/x/net/websocket is not part of the repository. The four
  operations the client calls are parameters of the model: each acts on a state \<open>'n\<close>
  of the network. A \<^verbatim>\<open>*websocket.Conn\<close> is a number, \<open>None\<close> the nil pointer.
  \<^verbatim>\<open>JSON.Receive\<close> is given the content of the Frame it decodes into and returns the
  content it leaves there, with or without an error; \<open>None\<close> is a call that never
  returns (nothing arrives and nobody closes the connection).
\<close>

datatype error = Error string

type_synonym conn = nat

record 'n websocket =
  Dial :: "string \<Rightarrow> string \<Rightarrow> string \<Rightarrow> 'n \<Rightarrow> (error + conn) \<times> 'n"
  JSON_Send :: "conn option \<Rightarrow> (string \<times> bool) list \<Rightarrow> 'n \<Rightarrow> error option \<times> 'n"
  JSON_Receive :: "conn option \<Rightarrow> Frame \<Rightarrow> 'n \<Rightarrow> ((error option \<times> Frame) \<times> 'n) option"
  Conn_Close :: "conn \<Rightarrow> 'n \<Rightarrow> error option \<times> 'n"

text \<open>The calls made to the library, in the order they are made.\<close>

datatype call =
  Dial_call string string string
  | Send_call "conn option" "(string \<times> bool) list"
  | Receive_call "conn option"
  | Close_call conn

subsection \<open>The state of the program\<close>

text \<open>
  Frames and channels live in a store and are referred to by address (\<open>frames\<close> maps
  an address to the content of the Frame there, \<open>next_frame\<close> is the next free one). The handler is
  a function of the pointer it is passed: it may read and write the frames and a
  state \<open>'h\<close> of its own. Each of its invocations is recorded with the pointer and the
  content of the frame at that moment.
\<close>

type_synonym addr = nat

type_synonym chan = nat

type_synonym 'h handler = "addr \<Rightarrow> (addr \<Rightarrow> Frame) \<times> 'h \<Rightarrow> (addr \<Rightarrow> Frame) \<times> 'h"

record 'h Client =
  ws :: "conn option"
  frameHandler :: "'h handler option"
  done_chan :: chan

record ('n, 'h) world =
  net :: 'n
  trace :: "call list"
  frames :: "addr \<Rightarrow> Frame"
  next_frame :: addr
  chans :: "bool list"
  hstate :: 'h
  invocations :: "(addr \<times> Frame) list"
  goroutines :: "'h Client list"

text \<open>\<^verbatim>\<open>make(chan struct{})\<close>, \<^verbatim>\<open>close(ch)\<close> and \<^verbatim>\<open>&Frame{}\<close>. A channel is closed or not.\<close>

definition make_chan :: "('n, 'h) world \<Rightarrow> chan \<times> ('n, 'h) world" where
  "make_chan w = (length (chans w), w\<lparr>chans := chans w @ [False]\<rparr>)"

definition close_chan :: "chan \<Rightarrow> ('n, 'h) world \<Rightarrow> ('n, 'h) world" where
  "close_chan ch w = w\<lparr>chans := (chans w)[ch := True]\<rparr>"

definition new_Frame :: "('n, 'h) world \<Rightarrow> addr \<times> ('n, 'h) world" where
  "new_Frame w =
     (next_frame w,
      w\<lparr>frames := (frames w)(next_frame w := zero_Frame), next_frame := Suc (next_frame w)\<rparr>)"

definition defaultLeapWebSocketAddress :: string where
  "defaultLeapWebSocketAddress = ''ws://localhost:6437/v6.json''"

subsection \<open>Connect\<close>

definition Connect ::
  "'n websocket \<Rightarrow> 'h handler option \<Rightarrow> ('n, 'h) world \<Rightarrow> (error + 'h Client) \<times> ('n, 'h) world" where
  "Connect L handler w =
     (case Dial L defaultLeapWebSocketAddress [] ''http://localhost/'' (net w) of
        (r, n1) \<Rightarrow>
          let w1 = w\<lparr>net := n1,
                     trace := trace w @ [Dial_call defaultLeapWebSocketAddress [] ''http://localhost/'']\<rparr>
          in case r of
               Inl err \<Rightarrow> (Inl err, w1)
             | Inr k \<Rightarrow>
                 let (ch, w2) = make_chan w1;
                     c = \<lparr>ws = Some k, frameHandler = handler, done_chan = ch\<rparr>
                 in case JSON_Send L (ws c) [(''enableGestures'', True)] (net w2) of
                      (r1, n2) \<Rightarrow>
                        let w3 = w2\<lparr>net := n2,
                                   trace := trace w2 @ [Send_call (ws c) [(''enableGestures'', True)]]\<rparr>
                        in case r1 of
                             Some err \<Rightarrow> (Inl err, w3)
                           | None \<Rightarrow>
                               (case JSON_Send L (ws c) [(''backgroundMessage'', True)] (net w3) of
                                  (r2, n3) \<Rightarrow>
                                    let w4 = w3\<lparr>net := n3,
                                          trace := trace w3 @ [Send_call (ws c) [(''backgroundMessage'', True)]]\<rparr>
                                    in case r2 of
                                         Some err \<Rightarrow> (Inl err, w4)
                                       | None \<Rightarrow> (Inr c, w4\<lparr>goroutines := goroutines w4 @ [c]\<rparr>)))"

subsection \<open>processData\<close>

text \<open>The call \<^verbatim>\<open>c.frameHandler(data)\<close>.\<close>

definition invoke :: "'h handler \<Rightarrow> addr \<Rightarrow> ('n, 'h) world \<Rightarrow> ('n, 'h) world" where
  "invoke h data w =
     (case h data (frames w, hstate w) of
        (fs, s) \<Rightarrow> w\<lparr>frames := fs, hstate := s,
                      invocations := invocations w @ [(data, frames w data)]\<rparr>)"

text \<open>
  One iteration of the \<^verbatim>\<open>for\<close> loop: \<open>None\<close> when the Receive never returns. On an
  error the iteration ends at \<^verbatim>\<open>continue\<close>; there is no other statement that leaves
  the body, and none that leaves the loop.
\<close>

definition processData_iter ::
  "'n websocket \<Rightarrow> 'h Client \<Rightarrow> addr \<Rightarrow> ('n, 'h) world \<Rightarrow> ('n, 'h) world option" where
  "processData_iter L c data w =
     (case JSON_Receive L (ws c) (frames w data) (net w) of
        None \<Rightarrow> None
      | Some ((err, f), n1) \<Rightarrow>
          let w1 = w\<lparr>net := n1, trace := trace w @ [Receive_call (ws c)],
                     frames := (frames w)(data := f)\<rparr>
          in if err \<noteq> None then Some w1
             else (case frameHandler c of
                     None \<Rightarrow> Some w1
                   | Some h \<Rightarrow> Some (invoke h data w1)))"

text \<open>The loop: it returns the state in which it is left, if it is ever left.\<close>

partial_function (option) processData_loop ::
  "'n websocket \<Rightarrow> 'h Client \<Rightarrow> addr \<Rightarrow> ('n, 'h) world \<Rightarrow> ('n, 'h) world option" where
  "processData_loop L c data w =
     (case processData_iter L c data w of
        None \<Rightarrow> None
      | Some w1 \<Rightarrow> processData_loop L c data w1)"

text \<open>
  The function: \<^verbatim>\<open>data := &Frame{}\<close>, the loop, and the deferred \<^verbatim>\<open>close(c.done)\<close>
  when the function returns.
\<close>

definition processData :: "'n websocket \<Rightarrow> 'h Client \<Rightarrow> ('n, 'h) world \<Rightarrow> ('n, 'h) world option" where
  "processData L c w =
     (case new_Frame w of
        (data, w1) \<Rightarrow>
          (case processData_loop L c data w1 of
             None \<Rightarrow> None
           | Some w2 \<Rightarrow> Some (close_chan (done_chan c) w2)))"

text \<open>The state after the first \<open>n\<close> iterations of the loop.\<close>

fun processData_steps ::
  "nat \<Rightarrow> 'n websocket \<Rightarrow> 'h Client \<Rightarrow> addr \<Rightarrow> ('n, 'h) world \<Rightarrow> ('n, 'h) world option" where
  "processData_steps 0 L c data w = Some w"
| "processData_steps (Suc n) L c data w =
     (case processData_iter L c data w of
        None \<Rightarrow> None
      | Some w1 \<Rightarrow> processData_steps n L c data w1)"

subsection \<open>Close and Done\<close>

definition Close :: "'n websocket \<Rightarrow> 'h Client \<Rightarrow> ('n, 'h) world \<Rightarrow> error option \<times> ('n, 'h) world" where
  "Close L c w =
     (case ws c of
        None \<Rightarrow> (None, w)
      | Some k \<Rightarrow>
          (case Conn_Close L k (net w) of
             (r, n1) \<Rightarrow> (r, w\<lparr>net := n1, trace := trace w @ [Close_call k]\<rparr>)))"

definition Done :: "'h Client \<Rightarrow> chan" where
  "Done c = done_chan c"

subsection \<open>A network with one connection\<close>

text \<open>
  An instance of the library for concrete runs. The network holds the error of the
  next Dial, if any, the results of the next Sends, and the messages that will arrive,
  in order. A message is well-formed or malformed, and either way has an effect on the
  Frame it is decoded into. On a closed connection Send, Receive and Close return an
  error.
\<close>

datatype inbound = WellFormed "Frame \<Rightarrow> Frame" | Malformed "Frame \<Rightarrow> Frame"

fun is_WellFormed :: "inbound \<Rightarrow> bool" where
  "is_WellFormed (WellFormed f) = True"
| "is_WellFormed (Malformed g) = False"

fun decoded :: "inbound \<Rightarrow> Frame \<Rightarrow> Frame" where
  "decoded (WellFormed f) = f"
| "decoded (Malformed g) = g"

record network =
  dial_result :: "error option"
  send_results :: "error option list"
  inbox :: "inbound list"
  sent :: "(string \<times> bool) list list"
  closed :: bool

definition closed_error :: error where
  "closed_error = Error ''use of closed network connection''"

definition decode_error :: error where
  "decode_error = Error ''invalid character''"

definition script_Dial :: "string \<Rightarrow> string \<Rightarrow> string \<Rightarrow> network \<Rightarrow> (error + conn) \<times> network" where
  "script_Dial url protocol origin n =
     (case dial_result n of Some err \<Rightarrow> (Inl err, n) | None \<Rightarrow> (Inr 0, n))"

definition script_Send :: "conn option \<Rightarrow> (string \<times> bool) list \<Rightarrow> network \<Rightarrow> error option \<times> network" where
  "script_Send k m n =
     (if closed n then (Some closed_error, n)
      else case send_results n of
             [] \<Rightarrow> (None, n\<lparr>sent := sent n @ [m]\<rparr>)
           | None # rs \<Rightarrow> (None, n\<lparr>send_results := rs, sent := sent n @ [m]\<rparr>)
           | Some err # rs \<Rightarrow> (Some err, n\<lparr>send_results := rs\<rparr>))"

definition script_Receive ::
  "conn option \<Rightarrow> Frame \<Rightarrow> network \<Rightarrow> ((error option \<times> Frame) \<times> network) option" where
  "script_Receive k buf n =
     (if closed n then Some ((Some closed_error, buf), n)
      else case inbox n of
             [] \<Rightarrow> None
           | m # ms \<Rightarrow>
               Some ((if is_WellFormed m then None else Some decode_error, decoded m buf),
                     n\<lparr>inbox := ms\<rparr>))"

definition script_Close :: "conn \<Rightarrow> network \<Rightarrow> error option \<times> network" where
  "script_Close k n =
     (if closed n then (Some closed_error, n) else (None, n\<lparr>closed := True\<rparr>))"

definition scripted :: "network websocket" where
  "scripted = \<lparr>Dial = script_Dial, JSON_Send = script_Send,
                JSON_Receive = script_Receive, Conn_Close = script_Close\<rparr>"

text \<open>A handler that keeps every pointer it is passed.\<close>

definition retain :: "addr list handler" where
  "retain p = (\<lambda>(fs, kept). (fs, kept @ [p]))"

text \<open>A message that carries every field: it decodes to \<open>f\<close> whatever the Frame held.\<close>

definition complete :: "Frame \<Rightarrow> inbound" where
  "complete f = WellFormed (\<lambda>b. f)"

definition start :: "inbound list \<Rightarrow> (network, addr list) world" where
  "start msgs =
     \<lparr>net = \<lparr>dial_result = None, send_results = [], inbox = msgs, sent = [], closed = False\<rparr>,
      trace = [], frames = (\<lambda>a. zero_Frame), next_frame = 0, chans = [], hstate = [], invocations = [], goroutines = []\<rparr>"

text \<open>The client that Connect returns on the scripted network with this handler.\<close>

definition client_0 :: "addr list Client" where
  "client_0 = \<lparr>ws = Some 0, frameHandler = Some retain, done_chan = 0\<rparr>"

text \<open>
  The state after Connect on the scripted network on which nothing arrives, and the
  state after the client has then been closed.
\<close>

definition connected_world :: "(network, addr list) world" where
  "connected_world = snd (Connect scripted (Some retain) (start []))"

definition closed_world :: "(network, addr list) world" where
  "closed_world = snd (Close scripted client_0 connected_world)"

definition frame_1 :: Frame where
  "frame_1 = zero_Frame\<lparr>ID := Finite 1\<rparr>"

definition frame_2 :: Frame where
  "frame_2 = zero_Frame\<lparr>ID := Finite 2\<rparr>"

section \<open>Properties of the float64 model\<close>

lemma pow2_powi: "pow2 e = 2 powi e"
  by (simp add: pow2_def power_int_def power_divide)

lemma pow2_pos: "0 < pow2 e"
  by (simp add: pow2_powi)

lemma pow2_add: "pow2 (a + b) = pow2 a * pow2 b"
  by (simp add: pow2_powi power_int_add)

lemma pow2_mono: "a \<le> b \<Longrightarrow> pow2 a \<le> pow2 b"
  by (simp add: pow2_powi power_int_increasing)

lemma pow2_strict_mono: "a < b \<Longrightarrow> pow2 a < pow2 b"
  by (simp add: pow2_powi power_int_strict_increasing)

lemma bitlen_eqI:
  assumes "0 \<le> k" "2 ^ nat k \<le> n" "n < 2 ^ nat (k + 1)"
  shows "bitlen n = k + 1"
proof (rule antisym)
  show "bitlen n \<le> k + 1"
    using assms by (simp add: bitlen_le_iff_power)
  have "nat (k + 1) - 1 = nat k" using assms(1) by simp
  then show "k + 1 \<le> bitlen n"
    using assms by (simp add: bitlen_ge_iff_power)
qed

lemma ilog2_eqI:
  assumes lo: "pow2 e \<le> \<bar>q\<bar>" and hi: "\<bar>q\<bar> < pow2 (e + 1)"
  shows "ilog2 q = e"
proof (cases "1 \<le> \<bar>q\<bar>")
  case True
  have e0: "0 \<le> e"
  proof (rule ccontr)
    assume "\<not> 0 \<le> e"
    then have "pow2 (e + 1) \<le> pow2 0" by (intro pow2_mono) simp
    then show False using hi True by (simp add: pow2_def)
  qed
  have "rat_of_int (2 ^ nat e) \<le> \<bar>q\<bar>" using lo e0 by (simp add: pow2_def)
  then have a: "2 ^ nat e \<le> \<lfloor>\<bar>q\<bar>\<rfloor>" by (simp only: le_floor_iff)
  have "\<bar>q\<bar> < rat_of_int (2 ^ nat (e + 1))" using hi e0 by (simp add: pow2_def)
  then have b: "\<lfloor>\<bar>q\<bar>\<rfloor> < 2 ^ nat (e + 1)" by (simp only: floor_less_iff)
  show ?thesis using True bitlen_eqI [OF e0 a b] by (simp add: ilog2_def)
next
  case False
  have qpos: "0 < \<bar>q\<bar>" using lo pow2_pos [of e] by linarith
  have e0: "e < 0"
  proof (rule ccontr)
    assume "\<not> e < 0"
    then have "pow2 0 \<le> pow2 e" by (intro pow2_mono) simp
    then show False using lo False by (simp add: pow2_def)
  qed
  define k where "k = - e - 1"
  have k0: "0 \<le> k" using e0 by (simp add: k_def)
  have pe: "pow2 e = 1 / 2 ^ nat (k + 1)" using e0 by (simp add: pow2_def k_def)
  have pe1: "pow2 (e + 1) = 1 / 2 ^ nat k"
    using e0 by (cases "e = -1") (auto simp: pow2_def k_def)
  have "1 / \<bar>q\<bar> \<le> 2 ^ nat (k + 1)"
    using lo qpos unfolding pe by (simp add: field_simps)
  then have "1 / \<bar>q\<bar> \<le> rat_of_int (2 ^ nat (k + 1))" by simp
  then have a: "\<lceil>1 / \<bar>q\<bar>\<rceil> \<le> 2 ^ nat (k + 1)" by (simp only: ceiling_le_iff)
  have "2 ^ nat k < 1 / \<bar>q\<bar>"
    using hi qpos unfolding pe1 by (simp add: field_simps)
  then have "rat_of_int (2 ^ nat k) < 1 / \<bar>q\<bar>" by simp
  then have b: "2 ^ nat k < \<lceil>1 / \<bar>q\<bar>\<rceil>" by (simp only: less_ceiling_iff)
  have "bitlen (\<lceil>1 / \<bar>q\<bar>\<rceil> - 1) = k + 1"
    using a b by (intro bitlen_eqI [OF k0]) auto
  then show ?thesis using False by (simp add: ilog2_def k_def)
qed

lemma round_half_even_eqI:
  assumes "\<bar>x - of_int m\<bar> < 1 / 2"
  shows "round_half_even x = m"
proof -
  have "\<lfloor>x\<rfloor> = m \<or> \<lfloor>x\<rfloor> = m - 1"
    using assms by (auto simp: floor_eq_iff abs_less_iff) 
  then show ?thesis
  proof
    assume f: "\<lfloor>x\<rfloor> = m"
    then have "of_int m \<le> x" by (simp add: floor_eq_iff)
    then have "x - of_int m < 1 / 2" using assms by linarith
    then show ?thesis using f by (simp add: round_half_even_def Let_def)
  next
    assume f: "\<lfloor>x\<rfloor> = m - 1"
    have "x < of_int m" using f by (simp add: floor_eq_iff)
    then have "1 / 2 < x - of_int (m - 1)" using assms by (simp add: abs_less_iff)
    then show ?thesis using f by (simp add: round_half_even_def Let_def)
  qed
qed

lemma round64_nearest:
  assumes lo: "pow2 e \<le> \<bar>q\<bar>" and hi: "\<bar>q\<bar> < pow2 (e + 1)"
    and e1: "- 1022 \<le> e" and e2: "e \<le> 1022"
    and m: "\<bar>q - of_int m * pow2 (e - 52)\<bar> < pow2 (e - 52) / 2"
  shows "round64 q = Finite (of_int m * pow2 (e - 52))"
proof -
  let ?u = "e - 52"
  have q0: "q \<noteq> 0" using lo pow2_pos [of e] by auto
  have il: "ilog2 q = e" by (rule ilog2_eqI [OF lo hi])
  have u: "max (ilog2 q - 52) (- 1074) = ?u" using e1 il by simp
  have up: "0 < pow2 ?u" by (rule pow2_pos)
  have "q / pow2 ?u - of_int m = (q - of_int m * pow2 ?u) / pow2 ?u"
    using up by (simp add: field_simps)
  then have "\<bar>q / pow2 ?u - of_int m\<bar> = \<bar>q - of_int m * pow2 ?u\<bar> / pow2 ?u"
    using up by (simp only: abs_divide abs_of_pos)
  also have "\<dots> < 1 / 2" using m up by (simp add: field_simps)
  finally have rm: "round_half_even (q / pow2 ?u) = m" by (rule round_half_even_eqI)
  have pe: "pow2 e = pow2 52 * pow2 ?u" using pow2_add [of 52 ?u] by simp
  have "pow2 52 * pow2 ?u - pow2 ?u / 2 < \<bar>of_int m * pow2 ?u\<bar>"
    using lo m unfolding pe by linarith
  moreover have "pow2 ?u / 2 < pow2 52 * pow2 ?u" using up by (simp add: pow2_def)
  ultimately have "0 < \<bar>of_int m * pow2 ?u\<bar>" by linarith
  then have m0: "m \<noteq> 0" by auto
  have "pow2 (e + 1) \<le> pow2 1023" using e2 by (intro pow2_mono) simp
  moreover have "pow2 ?u \<le> pow2 1023" using e2 by (intro pow2_mono) simp
  ultimately have "\<bar>of_int m * pow2 ?u\<bar> < pow2 1023 + pow2 1023" using hi m up by linarith
  also have "\<dots> = pow2 1024" using pow2_add [of 1 1023] by (simp add: pow2_def)
  finally have "\<bar>of_int m * pow2 ?u\<bar> < 2 ^ 1024" by (simp add: pow2_def)
  then show ?thesis
    using q0 rm m0 unfolding round64_def u Let_def by (simp add: not_le [symmetric])
qed


lemma round64_1: "round64 1 = Finite 1"
  using round64_nearest [of 0 1 4503599627370496] by (simp add: pow2_def)

lemma round64_half: "round64 (1 / 2) = Finite (1 / 2)"
  using round64_nearest [of "- 1" "1 / 2" 4503599627370496] by (simp add: pow2_def)

lemma round64_minus_half: "round64 (- (1 / 2)) = Finite (- (1 / 2))"
  using round64_nearest [of "- 1" "- (1 / 2)" "- 4503599627370496"] by (simp add: pow2_def)

lemma float64_of_int_1: "float64_of_int 1 = Finite 1"
  by (simp add: float64_of_int_def round64_1)

lemma lit_0_355: "lit (355 / 1000) = Finite (799388933858263 / 2251799813685248)"
  using round64_nearest [of "- 2" "355 / 1000" 6395111470866104] by (simp add: lit_def pow2_def)

lemma lit_0_532342: "lit (532342 / 1000000) = Finite (4794910465667329 / 9007199254740992)"
  using round64_nearest [of "- 1" "532342 / 1000000" 4794910465667329] by (simp add: lit_def pow2_def)

lemma lit_0_134234: "lit (134234 / 1000000) = Finite (4836289539043609 / 36028797018963968)"
  using round64_nearest [of "- 3" "134234 / 1000000" 4836289539043609] by (simp add: lit_def pow2_def)

lemma lit_0_032342: "lit (32342 / 1000000) = Finite (4660973412749331 / 144115188075855872)"
  using round64_nearest [of "- 5" "32342 / 1000000" 4660973412749331] by (simp add: lit_def pow2_def)

lemma lit_0_03234199999999998:
  "lit (3234199999999998 / 100000000000000000) = Finite (291310838296833 / 9007199254740992)"
  using round64_nearest [of "- 5" "3234199999999998 / 100000000000000000" 4660973412749328]
  by (simp add: lit_def pow2_def)

lemma axis_unit_box:
  "axis box1 (Slice [x0, x1, x2]) 0 = fadd (fdiv (fsub x0 (Finite 1)) (Finite 1)) half"
  "axis box1 (Slice [x0, x1, x2]) 1 = fadd (fdiv (fsub x1 (Finite 1)) (Finite 1)) half"
  "axis box1 (Slice [x0, x1, x2]) (Suc 0) = fadd (fdiv (fsub x1 (Finite 1)) (Finite 1)) half"
  "axis box1 (Slice [x0, x1, x2]) 2 = fadd (fdiv (fsub x2 (Finite 1)) (Finite 1)) half"
  by (simp_all add: axis_def box1_def idx_def float64_of_int_1)

lemma raw_0_355:
  "fadd (fdiv (fsub (Finite (799388933858263 / 2251799813685248)) (Finite 1)) (Finite 1)) half
   = Finite (- (326510972984361 / 2251799813685248))"
proof -
  have a: "round64 (- (1452410879826985 / 2251799813685248))
           = Finite (- (1452410879826985 / 2251799813685248))"
    using round64_nearest [of "- 1" "- (1452410879826985 / 2251799813685248)" "- 5809643519307940"]
    by (simp add: pow2_def)
  have b: "round64 (- (326510972984361 / 2251799813685248))
           = Finite (- (326510972984361 / 2251799813685248))"
    using round64_nearest [of "- 3" "- (326510972984361 / 2251799813685248)" "- 5224175567749776"]
    by (simp add: pow2_def)
  show ?thesis by (simp add: fsub_def fdiv_def half_def a b)
qed

lemma raw_0_532342:
  "fadd (fdiv (fsub (Finite (4794910465667329 / 9007199254740992)) (Finite 1)) (Finite 1)) half
   = Finite (291310838296833 / 9007199254740992)"
proof -
  have a: "round64 (- (4212288789073663 / 9007199254740992))
           = Finite (- (4212288789073663 / 9007199254740992))"
    using round64_nearest [of "- 2" "- (4212288789073663 / 9007199254740992)" "- 8424577578147326"]
    by (simp add: pow2_def)
  have b: "round64 (291310838296833 / 9007199254740992)
           = Finite (291310838296833 / 9007199254740992)"
    using round64_nearest [of "- 5" "291310838296833 / 9007199254740992" 4660973412749328]
    by (simp add: pow2_def)
  show ?thesis by (simp add: fsub_def fdiv_def half_def a b)
qed

lemma raw_0_134234:
  "fadd (fdiv (fsub (Finite (4836289539043609 / 36028797018963968)) (Finite 1)) (Finite 1)) half
   = Finite (- (1647263621304797 / 4503599627370496))"
proof -
  have a: "round64 (- (31192507479920359 / 36028797018963968))
           = Finite (- (3899063434990045 / 4503599627370496))"
    using round64_nearest [of "- 1" "- (31192507479920359 / 36028797018963968)" "- 7798126869980090"]
    by (simp add: pow2_def)
  have a': "round64 (- (3899063434990045 / 4503599627370496))
           = Finite (- (3899063434990045 / 4503599627370496))"
    using round64_nearest [of "- 1" "- (3899063434990045 / 4503599627370496)" "- 7798126869980090"]
    by (simp add: pow2_def)
  have b: "round64 (- (1647263621304797 / 4503599627370496))
           = Finite (- (1647263621304797 / 4503599627370496))"
    using round64_nearest [of "- 2" "- (1647263621304797 / 4503599627370496)" "- 6589054485219188"]
    by (simp add: pow2_def)
  show ?thesis by (simp add: fsub_def fdiv_def half_def a a' b)
qed

lemma raw_1: "fadd (fdiv (fsub (Finite 1) (Finite 1)) (Finite 1)) half = Finite (1 / 2)"
  by (simp add: fsub_def fdiv_def half_def signed_zero_def round64_half)

lemma raw_half: "fadd (fdiv (fsub (Finite (1 / 2)) (Finite 1)) (Finite 1)) half = Finite 0"
  by (simp add: fsub_def fdiv_def half_def round64_minus_half)

lemma raw_NaN: "fadd (fdiv (fsub NaN (Finite 1)) (Finite 1)) half = NaN"
  by (simp add: fsub_def fdiv_def)

lemma clamp01_negative: "q < 0 \<Longrightarrow> clamp01 (Finite q) = Finite 0"
  by (simp add: clamp01_def Max_f_def Min_f_def)

lemma clamp01_inside: "0 \<le> q \<Longrightarrow> q \<le> 1 \<Longrightarrow> clamp01 (Finite q) = Finite q"
  by (auto simp: clamp01_def Max_f_def Min_f_def)

text \<open>No rounding, and hence no sum or quotient of numbers, produces NaN.\<close>

lemma round64_not_NaN: "round64 q \<noteq> NaN"
  by (simp add: round64_def Let_def)

lemma fadd_finite_not_NaN: "x \<noteq> NaN \<Longrightarrow> is_finite y \<Longrightarrow> fadd x y \<noteq> NaN"
  by (cases x; cases y) (simp_all add: round64_not_NaN)

lemma fsub_finite_not_NaN: "is_finite x \<Longrightarrow> y \<noteq> NaN \<Longrightarrow> fsub x y \<noteq> NaN"
  by (cases x; cases y) (simp_all add: fsub_def round64_not_NaN)

lemma fdiv_finite_not_NaN: "x \<noteq> NaN \<Longrightarrow> is_finite y \<Longrightarrow> \<not> is_zero y \<Longrightarrow> fdiv x y \<noteq> NaN"
  by (cases y) (simp_all add: fdiv_def round64_not_NaN signed_inf_def signed_zero_def)

lemma axis_not_NaN:
  assumes "is_finite (idx position k)" "is_finite (idx (Size i) k)" "\<not> is_zero (idx (Size i) k)"
  shows "axis i position k \<noteq> NaN"
  unfolding axis_def half_def
  by (intro fadd_finite_not_NaN fdiv_finite_not_NaN fsub_finite_not_NaN assms)
     (simp_all add: float64_of_int_def round64_not_NaN)

section \<open>The clamp\<close>

lemma clamp01_range: "v \<noteq> NaN \<Longrightarrow> fle (Finite 0) (clamp01 v) \<and> fle (clamp01 v) (Finite 1)"
  by (cases v) (auto simp: clamp01_def Max_f_def Min_f_def fle_def)

lemma clamp01_below: "flt v (Finite 0) \<Longrightarrow> clamp01 v = Finite 0"
  by (cases v) (auto simp: clamp01_def Max_f_def Min_f_def)

lemma clamp01_above: "flt (Finite 1) v \<Longrightarrow> clamp01 v = Finite 1"
  by (cases v) (auto simp: clamp01_def Max_f_def Min_f_def)

lemma clamp01_within: "fle (Finite 0) v \<Longrightarrow> fle v (Finite 1) \<Longrightarrow> feq (clamp01 v) v"
  by (cases v) (auto simp: clamp01_def Max_f_def Min_f_def fle_def)

lemma clamp01_within_same:
  "fle (Finite 0) v \<Longrightarrow> fle v (Finite 1) \<Longrightarrow> v \<noteq> NegZero \<Longrightarrow> clamp01 v = v"
  by (cases v) (auto simp: clamp01_def Max_f_def Min_f_def fle_def)

lemma clamp01_NaN: "clamp01 NaN = NaN"
  by (simp add: clamp01_def Max_f_def Min_f_def)

lemma clamp01_idem: "clamp01 (clamp01 v) = clamp01 v"
  by (cases v) (auto simp: clamp01_def Max_f_def Min_f_def)

section \<open>NormalizePoint\<close>

lemma NormalizePoint_ok:
  "3 \<le> len (Center i) \<Longrightarrow> 3 \<le> len (Size i) \<Longrightarrow> 3 \<le> len position \<Longrightarrow>
   NormalizePoint i position clamp =
     Inr (if clamp
          then [clamp01 (axis i position 0), clamp01 (axis i position 1), clamp01 (axis i position 2)]
          else [axis i position 0, axis i position 1, axis i position 2])"
  by (cases "Center i"; cases "Size i"; cases position) (simp_all add: NormalizePoint_def)

lemma box1_shape: "3 \<le> len (Center box1)" "3 \<le> len (Size box1)"
  by (simp_all add: box1_def)

lemma less_3_cases: "k < 3 \<Longrightarrow> k = 0 \<or> k = 1 \<or> k = (2::nat)"
  by arith

text \<open>
  C2. With center, size and point of length 3 and no clamp, the call succeeds and each
  of the three components is \<^verbatim>\<open>(point[k] - float64(center[k])) / size[k] + 0.5\<close>,
  computed in float64.
\<close>

theorem NormalizePoint_affine:
  assumes "len (Center i) = 3" "len (Size i) = 3" "len position = 3" "k < 3"
  shows "\<exists>v. NormalizePoint i position False = Inr v \<and> length v = 3 \<and>
     v ! k = fadd (fdiv (fsub (idx position k) (float64_of_int (idx (Center i) k)))
                        (idx (Size i) k)) half"
  using assms less_3_cases [of k] by (auto simp: NormalizePoint_ok axis_def)

theorem NormalizePoint_affine_witness:
  "\<exists>v. NormalizePoint box1 (Slice [Finite 1, Finite 1, Finite 1]) False = Inr v \<and> length v = 3 \<and>
     v ! 0 = fadd (fdiv (fsub (Finite 1) (float64_of_int 1)) (Finite 1)) half"
  using NormalizePoint_affine [of box1 "Slice [Finite 1, Finite 1, Finite 1]" 0]
  by (simp add: box1_def idx_def)

text \<open>
  C3, as the code has it. Each of the three shapes is rejected when it is nil or has
  fewer than three elements, in the order center, size, position, each with its own
  error message and with no result; every other call succeeds, also when a shape has
  more than three elements.
\<close>

theorem NormalizePoint_validation:
  "NormalizePoint i position clamp =
     (if len (Center i) < 3 then Inl ''Center isn't set or doesn't have enough values''
      else if len (Size i) < 3 then Inl ''Size isn't set or doesn't have enough values''
      else if len position < 3 then Inl ''postion isn't set or doesn't have enough values''
      else Inr (if clamp
          then [clamp01 (axis i position 0), clamp01 (axis i position 1), clamp01 (axis i position 2)]
          else [axis i position 0, axis i position 1, axis i position 2]))"
proof -
  have nil_len: "\<And>s :: 'a slice. s = nil \<Longrightarrow> len s < 3" by simp
  show ?thesis
  proof (cases "len (Center i) < 3 \<or> len (Size i) < 3 \<or> len position < 3")
    case True
    then show ?thesis
      using nil_len by (auto simp: NormalizePoint_def)
  next
    case False
    then show ?thesis
      using NormalizePoint_ok [of i position clamp] by simp
  qed
qed

theorem NormalizePoint_validation_witness:
  "NormalizePoint \<lparr>Center = Slice [1, 1], Size = Slice [Finite 1, Finite 1, Finite 1]\<rparr>
     (Slice [Finite 1, Finite 1, Finite 1]) False
   = Inl ''Center isn't set or doesn't have enough values''"
  using NormalizePoint_validation
    [of "\<lparr>Center = Slice [1, 1], Size = Slice [Finite 1, Finite 1, Finite 1]\<rparr>"
        "Slice [Finite 1, Finite 1, Finite 1]" False]
  by simp

text \<open>
  A center of four elements is accepted, and so are a size and a point of four
  elements: the claim that a length other than 3 is an error fails there.
\<close>

theorem NormalizePoint_length_four_accepted:
  "NormalizePoint
     \<lparr>Center = Slice [1, 1, 1, 7], Size = Slice [Finite 1, Finite 1, Finite 1, Finite 7]\<rparr>
     (Slice [Finite 1, Finite 1, Finite 1, Finite 7]) False
   = Inr [Finite (1 / 2), Finite (1 / 2), Finite (1 / 2)]"
  by (simp add: NormalizePoint_def axis_def idx_def float64_of_int_1 raw_1)

text \<open>
  C4, as the code has it. For shapes that pass the validation, the result with clamp
  is the clamp of the result without, component by component. A component that is not
  NaN is brought into [0, 1]: below 0 it becomes 0, above 1 it becomes 1, inside the
  range it is returned as it is (-0 as +0, which Go's == does not tell apart). A NaN
  component stays NaN. The unclamped component is not NaN when the coordinate and the
  size are finite and the size is not zero.
\<close>

theorem NormalizePoint_clamp:
  assumes "3 \<le> len (Center i)" "3 \<le> len (Size i)" "3 \<le> len position" "k < 3"
  shows "\<exists>raw out. NormalizePoint i position False = Inr raw \<and>
     NormalizePoint i position True = Inr out \<and> length raw = 3 \<and> length out = 3 \<and>
     out ! k = clamp01 (raw ! k) \<and>
     (raw ! k \<noteq> NaN \<longrightarrow> fle (Finite 0) (out ! k) \<and> fle (out ! k) (Finite 1)) \<and>
     (flt (raw ! k) (Finite 0) \<longrightarrow> out ! k = Finite 0) \<and>
     (flt (Finite 1) (raw ! k) \<longrightarrow> out ! k = Finite 1) \<and>
     (fle (Finite 0) (raw ! k) \<and> fle (raw ! k) (Finite 1) \<longrightarrow> feq (out ! k) (raw ! k)) \<and>
     (raw ! k = NaN \<longrightarrow> out ! k = NaN) \<and>
     (is_finite (idx position k) \<and> is_finite (idx (Size i) k) \<and> \<not> is_zero (idx (Size i) k)
        \<longrightarrow> raw ! k \<noteq> NaN)"
proof -
  let ?raw = "[axis i position 0, axis i position 1, axis i position 2]"
  let ?out = "[clamp01 (axis i position 0), clamp01 (axis i position 1), clamp01 (axis i position 2)]"
  have r: "NormalizePoint i position False = Inr ?raw"
    and c: "NormalizePoint i position True = Inr ?out"
    using assms by (simp_all add: NormalizePoint_ok)
  have rk: "?raw ! k = axis i position k" and ok: "?out ! k = clamp01 (axis i position k)"
    using less_3_cases [OF assms(4)] by auto
  have "?out ! k = clamp01 (?raw ! k)" unfolding rk ok ..
  moreover have "?raw ! k \<noteq> NaN \<longrightarrow> fle (Finite 0) (?out ! k) \<and> fle (?out ! k) (Finite 1)"
    unfolding rk ok using clamp01_range by blast
  moreover have "flt (?raw ! k) (Finite 0) \<longrightarrow> ?out ! k = Finite 0"
    unfolding rk ok using clamp01_below by blast
  moreover have "flt (Finite 1) (?raw ! k) \<longrightarrow> ?out ! k = Finite 1"
    unfolding rk ok using clamp01_above by blast
  moreover have "fle (Finite 0) (?raw ! k) \<and> fle (?raw ! k) (Finite 1) \<longrightarrow> feq (?out ! k) (?raw ! k)"
    unfolding rk ok using clamp01_within by blast
  moreover have "?raw ! k = NaN \<longrightarrow> ?out ! k = NaN"
    unfolding rk ok using clamp01_NaN by simp
  moreover have "is_finite (idx position k) \<and> is_finite (idx (Size i) k) \<and> \<not> is_zero (idx (Size i) k)
        \<longrightarrow> ?raw ! k \<noteq> NaN"
    unfolding rk using axis_not_NaN by blast
  ultimately show ?thesis
    using r c by (intro exI [of _ ?raw] exI [of _ ?out]) simp
qed

text \<open>
  At the test's point the first component is negative without the clamp (the output
  is not constrained to [0, 1] then) and 0 with it.
\<close>

theorem NormalizePoint_clamp_witness:
  "NormalizePoint box1
     (Slice [lit (355 / 1000), lit (532342 / 1000000), lit (134234 / 1000000)]) False
   = Inr [Finite (- (326510972984361 / 2251799813685248)),
          Finite (291310838296833 / 9007199254740992),
          Finite (- (1647263621304797 / 4503599627370496))]
   \<and> (\<exists>out. NormalizePoint box1
     (Slice [lit (355 / 1000), lit (532342 / 1000000), lit (134234 / 1000000)]) True = Inr out
     \<and> out ! 0 = Finite 0)"
  using NormalizePoint_clamp [of box1
     "Slice [lit (355 / 1000), lit (532342 / 1000000), lit (134234 / 1000000)]" 0]
  unfolding lit_0_355 lit_0_532342 lit_0_134234
  by (simp add: NormalizePoint_ok [OF box1_shape] axis_unit_box raw_0_355 raw_0_532342
        raw_0_134234 clamp01_negative box1_shape)

text \<open>
  A point with a NaN coordinate: the clamped component is NaN, which is not in [0, 1].
\<close>

theorem NormalizePoint_clamp_NaN:
  "NormalizePoint box1 (Slice [NaN, Finite 1, Finite 1]) True
     = Inr [NaN, Finite (1 / 2), Finite (1 / 2)]
   \<and> \<not> (fle (Finite 0) NaN \<and> fle NaN (Finite 1))"
  by (simp add: NormalizePoint_ok [OF box1_shape] axis_unit_box raw_1 clamp01_inside
      clamp01_NaN raw_NaN fle_def)

text \<open>
  C8, as the code has it. The second component of the first literal case is the
  float64 that the repository's test expects, written 0.03234199999999998.
\<close>

theorem literal_case:
  "NormalizePoint box1 (Slice [lit (355 / 1000), lit (532342 / 1000000), lit (134234 / 1000000)]) True
     = Inr [Finite 0, lit (3234199999999998 / 100000000000000000), Finite 0]
   \<and> NormalizePoint box1 (Slice [Finite 1, Finite 1, Finite 1]) False
     = Inr [Finite (1 / 2), Finite (1 / 2), Finite (1 / 2)]"
  unfolding lit_0_355 lit_0_532342 lit_0_134234 lit_0_03234199999999998
  by (simp add: NormalizePoint_ok [OF box1_shape] axis_unit_box raw_0_355 raw_0_532342
        raw_0_134234 raw_1 clamp01_negative clamp01_inside)

text \<open>It is not the float64 of the constant 0.032342.\<close>

theorem literal_case_not_0_032342:
  "NormalizePoint box1 (Slice [lit (355 / 1000), lit (532342 / 1000000), lit (134234 / 1000000)]) True
     \<noteq> Inr [Finite 0, lit (32342 / 1000000), Finite 0]"
  unfolding lit_0_355 lit_0_532342 lit_0_134234 lit_0_032342
  by (simp add: NormalizePoint_ok [OF box1_shape] axis_unit_box raw_0_355 raw_0_532342
        raw_0_134234 clamp01_negative clamp01_inside)

text \<open>
  C9, as the code has it. The clamp of a component is idempotent, and a component in
  [0, 1] is left as it is (-0 becomes +0, equal under Go's ==).
\<close>

theorem clamp01_idempotent:
  "clamp01 (clamp01 v) = clamp01 v \<and>
   (fle (Finite 0) v \<and> fle v (Finite 1) \<longrightarrow>
      feq (clamp01 v) v \<and> (v \<noteq> NegZero \<longrightarrow> clamp01 v = v))"
  using clamp01_idem clamp01_within clamp01_within_same by blast

theorem clamp01_idempotent_witness:
  "clamp01 (clamp01 (Finite (1 / 2))) = clamp01 (Finite (1 / 2)) \<and>
   fle (Finite 0) (Finite (1 / 2)) \<and> fle (Finite (1 / 2)) (Finite 1) \<and>
   clamp01 (Finite (1 / 2)) = Finite (1 / 2)"
  using clamp01_idempotent [of "Finite (1 / 2)"] by (simp add: fle_def)

text \<open>
  Normalizing the clamped output again applies the affine transform again: the
  clamped output (0.5, 0.5, 0.5) of the point (1, 1, 1) is normalized to (0, 0, 0).
\<close>

theorem NormalizePoint_twice_differs:
  "NormalizePoint box1 (Slice [Finite 1, Finite 1, Finite 1]) True
     = Inr [Finite (1 / 2), Finite (1 / 2), Finite (1 / 2)]
   \<and> NormalizePoint box1 (Slice [Finite (1 / 2), Finite (1 / 2), Finite (1 / 2)]) True
     = Inr [Finite 0, Finite 0, Finite 0]"
  by (simp add: NormalizePoint_ok [OF box1_shape] axis_unit_box raw_1 raw_half clamp01_inside)

section \<open>The receive loop\<close>

lemma processData_loop_never_returns: "processData_loop L c data w = None"
proof -
  have False if "processData_loop L c data w = Some y" for y
    by (rule processData_loop.raw_induct [where P = "\<lambda>L c data w y. False", OF _ that])
       (auto split: option.splits)
  then show ?thesis
    by (cases "processData_loop L c data w") auto
qed

lemma processData_never_returns: "processData L c w = None"
  by (simp add: processData_def new_Frame_def processData_loop_never_returns)

text \<open>On a closed connection of the scripted network an iteration only fails a Receive.\<close>

lemma iter_closed:
  "closed (net w) \<Longrightarrow>
   processData_iter scripted c data w = Some (w\<lparr>trace := trace w @ [Receive_call (ws c)]\<rparr>)"
  by (simp add: processData_iter_def scripted_def script_Receive_def)

lemma steps_closed:
  "closed (net w) \<Longrightarrow>
   processData_steps n scripted c data w
     = Some (w\<lparr>trace := trace w @ replicate n (Receive_call (ws c))\<rparr>)"
proof (induction n arbitrary: w)
  case 0
  then show ?case by simp
next
  case (Suc n)
  have "closed (net (w\<lparr>trace := trace w @ [Receive_call (ws c)]\<rparr>))"
    using Suc.prems by simp
  from Suc.IH [OF this] show ?case
    using Suc.prems by (simp add: iter_closed replicate_app_Cons_same)
qed

text \<open>The next message of an open connection of the scripted network.\<close>

lemma iter_message:
  assumes "\<not> closed (net w)" "inbox (net w) = m # ms"
  shows "processData_iter scripted c data w =
     Some (let w1 = w\<lparr>net := (net w)\<lparr>inbox := ms\<rparr>, trace := trace w @ [Receive_call (ws c)],
                        frames := (frames w)(data := decoded m (frames w data))\<rparr>
           in if is_WellFormed m
              then (case frameHandler c of None \<Rightarrow> w1 | Some h \<Rightarrow> invoke h data w1)
              else w1)"
  using assms
  by (simp add: processData_iter_def scripted_def script_Receive_def Let_def split: option.splits)

lemma invoke_fields:
  "net (invoke h data w) = net w"
  "chans (invoke h data w) = chans w"
  "goroutines (invoke h data w) = goroutines w"
  "invocations (invoke h data w) = invocations w @ [(data, frames w data)]"
  by (simp_all add: invoke_def split: prod.splits)

lemma iter_message_fields:
  assumes "\<not> closed (net w)" "inbox (net w) = m # ms" "frameHandler c = Some h"
  shows "\<exists>w1. processData_iter scripted c data w = Some w1 \<and>
     net w1 = (net w)\<lparr>inbox := ms\<rparr> \<and> chans w1 = chans w \<and>
     invocations w1 = invocations w @
       (if is_WellFormed m then [(data, decoded m (frames w data))] else [])"
  using assms by (simp add: iter_message Let_def invoke_fields)

lemma steps_messages:
  assumes "\<not> closed (net w)" "inbox (net w) = msgs" "frameHandler c = Some h"
  shows "\<exists>w'. processData_steps (length msgs) scripted c data w = Some w' \<and>
     \<not> closed (net w') \<and> inbox (net w') = [] \<and> chans w' = chans w \<and>
     map fst (invocations w') =
       map fst (invocations w) @ replicate (length (filter is_WellFormed msgs)) data \<and>
     ((\<forall>m\<in>set msgs. is_WellFormed m \<longrightarrow> (\<forall>b. decoded m b = decoded m zero_Frame)) \<longrightarrow>
      invocations w' =
        invocations w @ map (\<lambda>m. (data, decoded m zero_Frame)) (filter is_WellFormed msgs))"
  using assms
proof (induction msgs arbitrary: w)
  case Nil
  then show ?case by simp
next
  case (Cons m ms)
  obtain w1 where w1: "processData_iter scripted c data w = Some w1"
    "net w1 = (net w)\<lparr>inbox := ms\<rparr>" "chans w1 = chans w"
    "invocations w1 = invocations w @
       (if is_WellFormed m then [(data, decoded m (frames w data))] else [])"
    using iter_message_fields [OF Cons.prems] by blast
  have "\<not> closed (net w1)" "inbox (net w1) = ms"
    using Cons.prems(1) w1(2) by simp_all
  from Cons.IH [OF this Cons.prems(3)] obtain w' where w':
    "processData_steps (length ms) scripted c data w1 = Some w'"
    "\<not> closed (net w')" "inbox (net w') = []" "chans w' = chans w1"
    "map fst (invocations w') =
       map fst (invocations w1) @ replicate (length (filter is_WellFormed ms)) data"
    "(\<forall>m\<in>set ms. is_WellFormed m \<longrightarrow> (\<forall>b. decoded m b = decoded m zero_Frame)) \<longrightarrow>
      invocations w' =
        invocations w1 @ map (\<lambda>m. (data, decoded m zero_Frame)) (filter is_WellFormed ms)"
    by blast
  have steps: "processData_steps (length (m # ms)) scripted c data w = Some w'"
    using w1(1) w'(1) by simp
  have ptrs: "map fst (invocations w') =
       map fst (invocations w) @ replicate (length (filter is_WellFormed (m # ms))) data"
    using w'(5) w1(4) by simp
  have contents: "invocations w' =
        invocations w @ map (\<lambda>m. (data, decoded m zero_Frame)) (filter is_WellFormed (m # ms))"
    if all: "\<forall>m'\<in>set (m # ms). is_WellFormed m' \<longrightarrow> (\<forall>b. decoded m' b = decoded m' zero_Frame)"
  proof -
    have hd: "is_WellFormed m \<Longrightarrow> decoded m (frames w data) = decoded m zero_Frame"
      using all by (metis list.set_intros(1))
    have "\<forall>m'\<in>set ms. is_WellFormed m' \<longrightarrow> (\<forall>b. decoded m' b = decoded m' zero_Frame)"
      using all by (metis list.set_intros(2))
    then have tl: "invocations w' =
        invocations w1 @ map (\<lambda>m. (data, decoded m zero_Frame)) (filter is_WellFormed ms)"
      using w'(6) by blast
    show ?thesis
    proof (cases "is_WellFormed m")
      case True
      then show ?thesis unfolding tl w1(4) using hd by simp
    next
      case False
      then show ?thesis unfolding tl w1(4) by simp
    qed
  qed
  have ch: "chans w' = chans w" using w'(4) w1(3) by simp
  show ?case
    by (intro exI [of _ w'] conjI impI steps w'(2) w'(3) ch ptrs contents) assumption
qed

text \<open>
  C5. On an open connection on which the messages \<open>msgs\<close> arrive, well-formed or
  malformed in any number, the loop is still running after \<open>length msgs\<close> iterations,
  the done channel is as it was, and the handler has been invoked once for each
  well-formed message and for no other, each time on the loop's Frame. When the
  well-formed messages carry every field, the contents the handler was invoked on
  are those of the well-formed messages, in the order of arrival.
\<close>

theorem loop_resilience:
  assumes "\<not> closed (net w)" "inbox (net w) = msgs" "frameHandler c = Some h"
  shows "\<exists>w'. processData_steps (length msgs) scripted c data w = Some w' \<and>
     \<not> closed (net w') \<and> inbox (net w') = [] \<and> chans w' = chans w \<and>
     map fst (invocations w') =
       map fst (invocations w) @ replicate (length (filter is_WellFormed msgs)) data \<and>
     ((\<forall>m\<in>set msgs. is_WellFormed m \<longrightarrow> (\<forall>b. decoded m b = decoded m zero_Frame)) \<longrightarrow>
      invocations w' =
        invocations w @ map (\<lambda>m. (data, decoded m zero_Frame)) (filter is_WellFormed msgs))"
  using assms by (rule steps_messages)

lemma client_0_handler: "frameHandler client_0 = Some retain" "ws client_0 = Some 0"
  by (simp_all add: client_0_def)

lemma start_net: "\<not> closed (net (start msgs))" "inbox (net (start msgs)) = msgs"
  "invocations (start msgs) = []" "chans (start msgs) = []"
  by (simp_all add: start_def)

theorem loop_resilience_witness:
  "\<exists>w'. processData_steps 3 scripted client_0 0
       (start [complete frame_1, Malformed (\<lambda>b. b), complete frame_2]) = Some w' \<and>
     invocations w' = [(0, frame_1), (0, frame_2)] \<and> chans w' = []"
proof -
  let ?msgs = "[complete frame_1, Malformed (\<lambda>b. b), complete frame_2]"
  have len: "length ?msgs = 3" by simp
  have wf: "filter is_WellFormed ?msgs = [complete frame_1, complete frame_2]"
    by (simp add: complete_def)
  have all: "\<forall>m\<in>set ?msgs. is_WellFormed m \<longrightarrow> (\<forall>b. decoded m b = decoded m zero_Frame)"
    by (simp add: complete_def)
  have dec: "decoded (complete frame_1) zero_Frame = frame_1"
    "decoded (complete frame_2) zero_Frame = frame_2"
    by (simp_all add: complete_def)
  show ?thesis
    using loop_resilience [OF start_net(1) start_net(2) client_0_handler(1), of ?msgs 0] all
    unfolding len wf
    by (auto simp only: start_net dec list.map append_Nil)
qed

section \<open>Connect\<close>

lemma Connect_start:
  "Connect scripted (Some retain) (start msgs) =
     (Inr client_0,
      (start msgs)\<lparr>net := (net (start msgs))
                      \<lparr>sent := [[(''enableGestures'', True)], [(''backgroundMessage'', True)]]\<rparr>,
        trace := [Dial_call defaultLeapWebSocketAddress [] ''http://localhost/'',
                  Send_call (Some 0) [(''enableGestures'', True)],
                  Send_call (Some 0) [(''backgroundMessage'', True)]],
        chans := [False], goroutines := [client_0]\<rparr>)"
  by (simp add: Connect_def scripted_def script_Dial_def script_Send_def start_def make_chan_def
      client_0_def Let_def)

text \<open>
  C10. When the Dial succeeds and the first or the second Send fails, Connect returns
  the error of that Send and no client, starts no goroutine, and has called the
  library for the Dial and the Sends only: the connection is not closed.
\<close>

theorem Connect_send_failure:
  assumes "Dial L defaultLeapWebSocketAddress [] ''http://localhost/'' (net w) = (Inr k, n1)"
    and "JSON_Send L (Some k) [(''enableGestures'', True)] n1 = (r1, n2)"
    and "JSON_Send L (Some k) [(''backgroundMessage'', True)] n2 = (r2, n3)"
    and "r1 = Some err \<or> (r1 = None \<and> r2 = Some err)"
  shows "fst (Connect L handler w) = Inl err \<and>
     goroutines (snd (Connect L handler w)) = goroutines w \<and>
     net (snd (Connect L handler w)) = (if r1 = None then n3 else n2) \<and>
     trace (snd (Connect L handler w)) =
       trace w @ [Dial_call defaultLeapWebSocketAddress [] ''http://localhost/'',
                  Send_call (Some k) [(''enableGestures'', True)]] @
       (if r1 = None then [Send_call (Some k) [(''backgroundMessage'', True)]] else []) \<and>
     Close_call k \<notin> set (trace (snd (Connect L handler w))) - set (trace w)"
  using assms by (auto simp: Connect_def make_chan_def Let_def)

theorem Connect_send_failure_witness:
  "fst (Connect scripted (Some retain) ((start [])\<lparr>net := (net (start []))
          \<lparr>send_results := [None, Some (Error ''broken pipe'')]\<rparr>\<rparr>))
     = Inl (Error ''broken pipe'') \<and>
   goroutines (snd (Connect scripted (Some retain) ((start [])\<lparr>net := (net (start []))
          \<lparr>send_results := [None, Some (Error ''broken pipe'')]\<rparr>\<rparr>))) = [] \<and>
   \<not> closed (net (snd (Connect scripted (Some retain) ((start [])\<lparr>net := (net (start []))
          \<lparr>send_results := [None, Some (Error ''broken pipe'')]\<rparr>\<rparr>))))"
  using Connect_send_failure [of scripted
      "(start [])\<lparr>net := (net (start []))\<lparr>send_results := [None, Some (Error ''broken pipe'')]\<rparr>\<rparr>"
      0 "(net (start []))\<lparr>send_results := [None, Some (Error ''broken pipe'')]\<rparr>"
      None
      "(net (start []))\<lparr>send_results := [Some (Error ''broken pipe'')],
          sent := [[(''enableGestures'', True)]]\<rparr>"
      "Some (Error ''broken pipe'')"
      "(net (start []))\<lparr>send_results := [], sent := [[(''enableGestures'', True)]]\<rparr>"
      "Error ''broken pipe''" "Some retain"]
  by (simp add: scripted_def script_Dial_def script_Send_def start_def)

section \<open>Close\<close>

text \<open>
  C6, as the code has it. Close on a client without connection returns no error and
  does nothing. Otherwise every call of Close calls the connection's Close once and
  returns what that returns. No call of Close touches a channel or a goroutine.
\<close>

theorem Close_forwards:
  "(ws c = None \<longrightarrow> Close L c w = (None, w)) \<and>
   (\<forall>k. ws c = Some k \<longrightarrow>
      fst (Close L c w) = fst (Conn_Close L k (net w)) \<and>
      net (snd (Close L c w)) = snd (Conn_Close L k (net w)) \<and>
      trace (snd (Close L c w)) = trace w @ [Close_call k]) \<and>
   chans (snd (Close L c w)) = chans w \<and>
   goroutines (snd (Close L c w)) = goroutines w"
  by (auto simp: Close_def split: option.splits prod.splits)

theorem Close_forwards_witness:
  "Close scripted (client_0\<lparr>ws := None\<rparr>) (start []) = (None, start []) \<and>
   fst (Close scripted client_0 (start [])) = None \<and>
   closed (net (snd (Close scripted client_0 (start [])))) \<and>
   chans (snd (Close scripted client_0 (start []))) = []"
  using Close_forwards [of "client_0\<lparr>ws := None\<rparr>" scripted "start []"]
    Close_forwards [of client_0 scripted "start []"]
  by (simp add: client_0_def scripted_def script_Close_def start_def)

text \<open>
  The second Close of a connection calls the connection's Close again, which fails on
  the closed connection: the second call returns an error.
\<close>

theorem Close_twice_error:
  "fst (Close scripted client_0 (start [])) = None \<and>
   fst (Close scripted client_0 (snd (Close scripted client_0 (start [])))) = Some closed_error"
  by (simp add: Close_def client_0_def scripted_def script_Close_def start_def)

section \<open>Close and the loop\<close>

lemma connected_world_eq:
  "connected_world =
      (start [])\<lparr>net := (net (start []))
                      \<lparr>sent := [[(''enableGestures'', True)], [(''backgroundMessage'', True)]]\<rparr>,
        trace := [Dial_call defaultLeapWebSocketAddress [] ''http://localhost/'',
                  Send_call (Some 0) [(''enableGestures'', True)],
                  Send_call (Some 0) [(''backgroundMessage'', True)]],
        chans := [False], goroutines := [client_0]\<rparr>"
  by (simp add: connected_world_def Connect_start)

lemma closed_world_fields:
  "fst (Close scripted client_0 connected_world) = None"
  "closed (net closed_world)" "chans closed_world = [False]" "invocations closed_world = []"
  by (simp_all add: closed_world_def connected_world_eq Close_def client_0_def scripted_def
      script_Close_def start_def)

lemma new_Frame_fields:
  "net (snd (new_Frame w)) = net w" "chans (snd (new_Frame w)) = chans w"
  "invocations (snd (new_Frame w)) = invocations w" "fst (new_Frame w) = next_frame w"
  by (simp_all add: new_Frame_def)

text \<open>
  C1 fails on the code. Connect on the scripted network, then Close: the Close
  succeeds and the connection is closed, but processData does not return, and after
  any number of iterations of its loop the done channel of the client is still open.
  (No handler invocation occurs either.)
\<close>

theorem Close_does_not_end_processData:
  "fst (Connect scripted (Some retain) (start [])) = Inr client_0 \<and>
   fst (Close scripted client_0 connected_world) = None \<and>
   closed (net closed_world) \<and>
   processData scripted client_0 closed_world = None \<and>
   (\<forall>n. \<exists>w. processData_steps n scripted client_0 (fst (new_Frame closed_world))
                (snd (new_Frame closed_world)) = Some w \<and>
            chans w ! Done client_0 = False \<and> invocations w = [])"
proof -
  have "closed (net (snd (new_Frame closed_world)))"
    by (simp add: new_Frame_fields closed_world_fields)
  then have "\<exists>w. processData_steps n scripted client_0 (fst (new_Frame closed_world))
                (snd (new_Frame closed_world)) = Some w \<and>
            chans w ! Done client_0 = False \<and> invocations w = []" for n
    by (simp add: steps_closed new_Frame_fields closed_world_fields Done_def client_0_def)
  then show ?thesis
    by (simp add: Connect_start closed_world_fields processData_never_returns)
qed

section \<open>The Frame of the loop\<close>

lemma iter_invocations:
  "processData_iter L c data w = Some w1 \<Longrightarrow>
   invocations w1 = invocations w \<or> (\<exists>f. invocations w1 = invocations w @ [(data, f)])"
  by (auto simp: processData_iter_def invoke_def Let_def split: option.splits prod.splits if_splits)

lemma steps_pointers:
  "processData_steps n L c data w = Some w' \<Longrightarrow>
   \<exists>k. map fst (invocations w') = map fst (invocations w) @ replicate k data"
proof (induction n arbitrary: w)
  case 0
  then have "map fst (invocations w') = map fst (invocations w) @ replicate 0 data" by simp
  then show ?case by blast
next
  case (Suc n)
  then obtain w1 where w1: "processData_iter L c data w = Some w1"
    and rest: "processData_steps n L c data w1 = Some w'"
    by (auto split: option.splits)
  from Suc.IH [OF rest] obtain k where
    k: "map fst (invocations w') = map fst (invocations w1) @ replicate k data" by blast
  from iter_invocations [OF w1] show ?case
  proof
    assume "invocations w1 = invocations w"
    then show ?thesis using k by auto
  next
    assume "\<exists>f. invocations w1 = invocations w @ [(data, f)]"
    then have "map fst (invocations w') = map fst (invocations w) @ replicate (Suc k) data"
      using k by auto
    then show ?thesis by blast
  qed
qed

lemma iter_retain:
  assumes "\<not> closed (net w)" "inbox (net w) = m # ms" "frameHandler c = Some retain"
  shows "\<exists>w1. processData_iter scripted c data w = Some w1 \<and>
     net w1 = (net w)\<lparr>inbox := ms\<rparr> \<and>
     hstate w1 = hstate w @ (if is_WellFormed m then [data] else []) \<and>
     frames w1 data = decoded m (frames w data)"
  using assms by (simp add: iter_message Let_def invoke_def retain_def)

lemma steps_retain:
  assumes "\<not> closed (net w)" "inbox (net w) = msgs" "frameHandler c = Some retain"
  shows "\<exists>w'. processData_steps (length msgs) scripted c data w = Some w' \<and>
     hstate w' = hstate w @ replicate (length (filter is_WellFormed msgs)) data \<and>
     frames w' data = foldl (\<lambda>b m. decoded m b) (frames w data) msgs"
  using assms
proof (induction msgs arbitrary: w)
  case Nil
  then show ?case by simp
next
  case (Cons m ms)
  obtain w1 where w1: "processData_iter scripted c data w = Some w1"
    "net w1 = (net w)\<lparr>inbox := ms\<rparr>"
    "hstate w1 = hstate w @ (if is_WellFormed m then [data] else [])"
    "frames w1 data = decoded m (frames w data)"
    using iter_retain [OF Cons.prems] by blast
  have "\<not> closed (net w1)" "inbox (net w1) = ms"
    using Cons.prems(1) w1(2) by simp_all
  from Cons.IH [OF this Cons.prems(3)] obtain w' where w':
    "processData_steps (length ms) scripted c data w1 = Some w'"
    "hstate w' = hstate w1 @ replicate (length (filter is_WellFormed ms)) data"
    "frames w' data = foldl (\<lambda>b m. decoded m b) (frames w1 data) ms"
    by blast
  have a: "processData_steps (length (m # ms)) scripted c data w = Some w'"
    using w1(1) w'(1) by simp
  have b: "hstate w' = hstate w @ replicate (length (filter is_WellFormed (m # ms))) data"
    unfolding w'(2) w1(3) by simp
  have c: "frames w' data = foldl (\<lambda>b m. decoded m b) (frames w data) (m # ms)"
    unfolding w'(3) w1(4) by simp
  show ?case
    by (intro exI [of _ w'] conjI a b c)
qed

text \<open>
  C7, as the code has it. Whatever the library and the handler do, every invocation
  of the handler by the loop passes the pointer to the one Frame that processData
  allocated before the loop. Every Receive decodes into that Frame: for a handler that
  only keeps the pointers, the pointers kept are all this one, and the Frame they
  refer to holds the effects of all the messages received so far, in order.
\<close>

theorem processData_one_Frame:
  "(processData_steps n L c data w = Some w' \<longrightarrow>
      (\<exists>k. map fst (invocations w') = map fst (invocations w) @ replicate k data)) \<and>
   (\<not> closed (net v) \<and> inbox (net v) = msgs \<and> frameHandler c' = Some retain \<longrightarrow>
      (\<exists>v'. processData_steps (length msgs) scripted c' data v = Some v' \<and>
         hstate v' = hstate v @ replicate (length (filter is_WellFormed msgs)) data \<and>
         frames v' data = foldl (\<lambda>b m. decoded m b) (frames v data) msgs))"
  using steps_pointers [of n L c data w w'] steps_retain [of v msgs c' data] by blast

lemma two_frames:
  "processData_steps 2 scripted client_0 0
     (snd (new_Frame (start [complete frame_1, complete frame_2])))
   = Some ((start [])\<lparr>trace := [Receive_call (Some 0), Receive_call (Some 0)],
        frames := (\<lambda>a. zero_Frame)(0 := frame_2), next_frame := Suc 0, hstate := [0, 0],
        invocations := [(0, frame_1), (0, frame_2)]\<rparr>)"
  by (simp add: numeral_2_eq_2 iter_message new_Frame_def start_def client_0_def complete_def
      invoke_def retain_def Let_def)

lemma frame_1_2: "frame_1 \<noteq> frame_2"
  by (simp add: frame_1_def frame_2_def zero_Frame_def)

theorem processData_one_Frame_witness:
  "\<exists>v'. processData_steps 2 scripted client_0 0
       (snd (new_Frame (start [complete frame_1, complete frame_2]))) = Some v' \<and>
     map fst (invocations v') = [0, 0] \<and> hstate v' = [0, 0] \<and> frames v' 0 = frame_2"
  using processData_one_Frame [of 2 scripted client_0 0
      "snd (new_Frame (start [complete frame_1, complete frame_2]))"
      "(start [])\<lparr>trace := [Receive_call (Some 0), Receive_call (Some 0)],
        frames := (\<lambda>a. zero_Frame)(0 := frame_2), next_frame := Suc 0, hstate := [0, 0],
        invocations := [(0, frame_1), (0, frame_2)]\<rparr>"
      "snd (new_Frame (start [complete frame_1, complete frame_2]))"
      "[complete frame_1, complete frame_2]" client_0]
  by (simp add: two_frames)

text \<open>
  Two messages arrive, and the handler keeps the Frame it is passed. The Frame kept
  at the first invocation held the first message then; after the second iteration it
  holds the second message.
\<close>

theorem retained_Frame_overwritten:
  "map_option hstate (processData_steps 2 scripted client_0 0
       (snd (new_Frame (start [complete frame_1, complete frame_2])))) = Some [0, 0] \<and>
   map_option invocations (processData_steps 2 scripted client_0 0
       (snd (new_Frame (start [complete frame_1, complete frame_2]))))
     = Some [(0, frame_1), (0, frame_2)] \<and>
   map_option (\<lambda>w. frames w 0) (processData_steps 2 scripted client_0 0
       (snd (new_Frame (start [complete frame_1, complete frame_2])))) = Some frame_2 \<and>
   frame_1 \<noteq> frame_2"
  by (simp add: two_frames frame_1_2)

end
